theory Spec2Isabelle
  imports Complex_Main "HOL-Library.AList" "HOL-Library.Log_Nat"
begin

section \<open>The in-process vector store of \<^verbatim>\<open>src/core/Chroma.py\<close>\<close>

text \<open>
  The development embeds the classes of \<^verbatim>\<open>src/core/Chroma.py\<close>: the configuration
  singleton, the two similarity strategies, the record type \<^verbatim>\<open>VectorItem\<close> and the
  store \<^verbatim>\<open>ChromaVectorDB\<close> with its observers.

  Conventions of the embedding:
  \<^item> In the store, a numpy vector is a list of reals and a score is a real number:
    what is proved of \<^verbatim>\<open>query\<close> holds for any scoring function. The one property that
    depends on floating-point arithmetic, that the cosine strategy never divides by
    zero, is proved over a model of \<^verbatim>\<open>float64\<close> with its rounding, its infinities and
    \<^verbatim>\<open>nan\<close>.
  \<^item> A raised exception is a value \<open>Inl e\<close>. Every operation that mutates the store
    returns its outcome together with the state in which it leaves the store, so that
    what a failed call did to the store is part of its result.
  \<^item> A Python \<^verbatim>\<open>dict\<close> keeps insertion order, and \<^verbatim>\<open>query\<close> iterates over it, so
    \<^verbatim>\<open>_items\<close> is an association list: \<open>AList.update\<close> overwrites an existing key in
    place and appends a new one, as assignment to a \<^verbatim>\<open>dict\<close> entry does.
  \<^item> The configuration object is a process-wide singleton that the store only holds a
    reference to. Its current contents are therefore an argument of the methods that
    read \<^verbatim>\<open>self._config\<close>, not a field of the store.
  \<^item> An observer is an opaque value of type \<open>'o\<close>; what is recorded of it is the
    sequence of calls of \<^verbatim>\<open>on_data_change\<close> it receives. Observers are assumed to
    return normally, as \<^verbatim>\<open>LoggingObserver\<close> does.
\<close>

subsection \<open>Errors\<close>

datatype error =
    ValueError string
  | RuntimeError string
  | KeyError string
  | ZeroDivide

text \<open>
  \<open>ZeroDivide\<close> stands for a numpy division whose divisor is zero: numpy issues a
  \<^verbatim>\<open>RuntimeWarning\<close> and yields \<^verbatim>\<open>nan\<close> or an infinity, neither of which is a real
  number. The model keeps that branch apart instead of letting HOL's \<open>x / 0 = 0\<close>
  hide it.
\<close>

fun str_nat :: "nat \<Rightarrow> string" where
  "str_nat n =
     (if n < 10 then [char_of (48 + n)]
      else str_nat (n div 10) @ [char_of (48 + n mod 10)])"

declare str_nat.simps [simp del]

definition str_int :: "int \<Rightarrow> string" where
  "str_int i = (if i < 0 then CHR ''-'' # str_nat (nat (- i)) else str_nat (nat i))"

text \<open>\<^verbatim>\<open>str(e)\<close>: the message of the exception; for a \<^verbatim>\<open>KeyError\<close>, the \<^verbatim>\<open>repr\<close> of the key.\<close>

fun str_error :: "error \<Rightarrow> string" where
  "str_error (ValueError msg) = msg"
| "str_error (RuntimeError msg) = msg"
| "str_error (KeyError k) = CHR 0x27 # k @ [CHR 0x27]"
| "str_error ZeroDivide = ''divide by zero encountered in scalar divide''"

subsection \<open>ConfigSingleton\<close>

record ConfigSingleton =
  default_embedding_dim :: int
  similarity_threshold :: real
  max_items :: int

definition initialize :: ConfigSingleton where
  "initialize = \<lparr>default_embedding_dim = 128, similarity_threshold = 0.8, max_items = 10000\<rparr>"

subsection \<open>Similarity strategies\<close>

type_synonym vector = "real list"

definition shape :: "vector \<Rightarrow> string" where
  "shape v = ''('' @ str_nat (length v) @ '',)''"

text \<open>\<^verbatim>\<open>np.dot\<close> of two one-dimensional arrays raises unless they have the same length.\<close>

definition np_dot :: "vector \<Rightarrow> vector \<Rightarrow> error + real" where
  "np_dot a b =
     (if length a \<noteq> length b
      then Inl (ValueError (''shapes '' @ shape a @ '' and '' @ shape b @ '' not aligned: ''
                  @ str_nat (length a) @ '' (dim 0) != '' @ str_nat (length b) @ '' (dim 0)''))
      else Inr (\<Sum>(x, y)\<leftarrow>zip a b. x * y))"

text \<open>\<^verbatim>\<open>np.linalg.norm\<close> of a one-dimensional array: the root of the sum of squares.\<close>

definition np_linalg_norm :: "vector \<Rightarrow> real" where
  "np_linalg_norm v = sqrt (\<Sum>x\<leftarrow>v. x * x)"

text \<open>Elementwise subtraction; numpy broadcasts a vector of length one.\<close>

definition np_subtract :: "vector \<Rightarrow> vector \<Rightarrow> error + vector" where
  "np_subtract a b =
     (if length a = length b then Inr (map (\<lambda>(x, y). x - y) (zip a b))
      else if length b = 1 then Inr (map (\<lambda>x. x - hd b) a)
      else if length a = 1 then Inr (map (\<lambda>y. hd a - y) b)
      else Inl (ValueError (''operands could not be broadcast together with shapes ''
                  @ shape a @ '' '' @ shape b @ '' '')))"

definition true_divide :: "real \<Rightarrow> real \<Rightarrow> error + real" where
  "true_divide x y = (if y = 0 then Inl ZeroDivide else Inr (x / y))"

datatype SimilarityStrategy =
    CosineSimilarity
  | EuclideanSimilarity
  | Subclass "vector \<Rightarrow> vector \<Rightarrow> error + real"

definition CosineSimilarity_calculate :: "vector \<Rightarrow> vector \<Rightarrow> error + real" where
  "CosineSimilarity_calculate vector1 vector2 =
     (case np_dot vector1 vector2 of
        Inl e \<Rightarrow> Inl e
      | Inr dot_product \<Rightarrow>
          (let norm1 = np_linalg_norm vector1;
               norm2 = np_linalg_norm vector2
           in if norm1 = 0 \<or> norm2 = 0 then Inr 0
              else true_divide dot_product (norm1 * norm2)))"

definition EuclideanSimilarity_calculate :: "vector \<Rightarrow> vector \<Rightarrow> error + real" where
  "EuclideanSimilarity_calculate vector1 vector2 =
     (case np_subtract vector1 vector2 of
        Inl e \<Rightarrow> Inl e
      | Inr d \<Rightarrow> true_divide 1 (1 + np_linalg_norm d))"

fun calculate :: "SimilarityStrategy \<Rightarrow> vector \<Rightarrow> vector \<Rightarrow> error + real" where
  "calculate CosineSimilarity v1 v2 = CosineSimilarity_calculate v1 v2"
| "calculate EuclideanSimilarity v1 v2 = EuclideanSimilarity_calculate v1 v2"
| "calculate (Subclass f) v1 v2 = f v1 v2"

subsection \<open>The cosine strategy in float64 arithmetic\<close>

text \<open>
  Whether \<^verbatim>\<open>CosineSimilarity.calculate\<close> can divide by zero depends on the arithmetic
  of numpy's \<^verbatim>\<open>float64\<close>, in which a product of two non-zero numbers may round to
  zero. This part models that arithmetic and, over it, the method once more, for
  one-dimensional \<^verbatim>\<open>float64\<close> arrays (numpy's default type).

  A finite \<^verbatim>\<open>float64\<close> is an integer multiple of \<^verbatim>\<open>2**-1074\<close>, the smallest positive
  subnormal number: \<open>Fin k\<close> stands for \<^verbatim>\<open>k * 2**-1074\<close>. Not every integer is the \<open>k\<close> of
  a \<^verbatim>\<open>float64\<close>, but every finite \<^verbatim>\<open>float64\<close> is some \<open>Fin k\<close>, so what holds for all
  \<open>Fin k\<close> holds for all finite \<^verbatim>\<open>float64\<close>. The two zeros \<^verbatim>\<open>0.0\<close> and \<^verbatim>\<open>-0.0\<close> are both
  \<open>Fin 0\<close>: they are equal under \<^verbatim>\<open>==\<close>, the only test the method applies to them.
\<close>

datatype float64 = Fin int | PosInf | NegInf | NaN

text \<open>\<^verbatim>\<open>x == 0\<close> on a \<^verbatim>\<open>float64\<close>: false for the infinities and for \<^verbatim>\<open>nan\<close>.\<close>

fun is_zero :: "float64 \<Rightarrow> bool" where
  "is_zero (Fin k) = (k = 0)"
| "is_zero PosInf = False"
| "is_zero NegInf = False"
| "is_zero NaN = False"

fun sign64 :: "float64 \<Rightarrow> int" where
  "sign64 (Fin k) = sgn k"
| "sign64 PosInf = 1"
| "sign64 NegInf = - 1"
| "sign64 NaN = 0"

text \<open>
  Rounding to nearest, ties to even, as IEEE 754 prescribes for every operation
  below. \<open>round_half_even n d\<close> is the integer nearest to \<open>n / d\<close>, for \<open>0 \<le> n\<close> and
  \<open>0 < d\<close>. \<open>round_mag n d\<close> is the \<^verbatim>\<open>float64\<close> magnitude nearest to \<open>n / d\<close> units of
  \<^verbatim>\<open>2**-1074\<close>: below \<^verbatim>\<open>2**53\<close> units the representable numbers are one unit apart (the
  subnormal range and the first binade), above they keep 53 significant bits.
  \<open>round64\<close> adds the sign and the overflow to an infinity: the largest finite
  \<^verbatim>\<open>float64\<close> is \<^verbatim>\<open>(2**53 - 1) * 2**2045\<close> units.
\<close>

definition round_half_even :: "int \<Rightarrow> int \<Rightarrow> int" where
  "round_half_even n d =
     (let q = n div d; r = n mod d
      in if 2 * r < d then q
         else if d < 2 * r then q + 1
         else if even q then q else q + 1)"

definition round_mag :: "int \<Rightarrow> int \<Rightarrow> int" where
  "round_mag n d =
     (let w = bitlen (n div d)
      in if w \<le> 53 then round_half_even n d
         else round_half_even n (d * 2 ^ nat (w - 53)) * 2 ^ nat (w - 53))"

definition round64 :: "int \<Rightarrow> int \<Rightarrow> float64" where
  "round64 n d =
     (let m = round_mag \<bar>n\<bar> d
      in if 2 ^ 2098 \<le> m then (if n < 0 then NegInf else PosInf)
         else Fin (sgn n * m))"

text \<open>
  Multiplication and addition of two \<^verbatim>\<open>float64\<close>. The exact product of \<open>Fin a\<close> and
  \<open>Fin b\<close> is \<^verbatim>\<open>a * b / 2**1074\<close> units.
\<close>

fun mul64 :: "float64 \<Rightarrow> float64 \<Rightarrow> float64" where
  "mul64 (Fin a) (Fin b) = round64 (a * b) (2 ^ 1074)"
| "mul64 NaN y = NaN"
| "mul64 x NaN = NaN"
| "mul64 x y =
     (if sign64 x * sign64 y = 0 then NaN
      else if 0 < sign64 x * sign64 y then PosInf else NegInf)"

fun add64 :: "float64 \<Rightarrow> float64 \<Rightarrow> float64" where
  "add64 (Fin a) (Fin b) = round64 (a + b) 1"
| "add64 NaN y = NaN"
| "add64 x NaN = NaN"
| "add64 PosInf NegInf = NaN"
| "add64 NegInf PosInf = NaN"
| "add64 PosInf y = PosInf"
| "add64 NegInf y = NegInf"
| "add64 x PosInf = PosInf"
| "add64 x NegInf = NegInf"

text \<open>
  The square root, correctly rounded. \<open>isqrt n\<close> is the integer part of the root of
  \<open>n\<close>. The root of \<open>k\<close> units is the root of \<^verbatim>\<open>N = k * 2**1074\<close>, in units; \<open>sqrt_round N\<close>
  keeps its 53 leading bits and rounds on the rest (by comparing \<^verbatim>\<open>4 * N\<close> with the
  square of the midpoint).
\<close>

function isqrt :: "int \<Rightarrow> int" where
  "isqrt n =
     (if n < 4 then (if n \<le> 0 then 0 else 1)
      else (let r = 2 * isqrt (n div 4) in if (r + 1) * (r + 1) \<le> n then r + 1 else r))"
  by pat_completeness auto
termination
  by (relation "measure nat") auto

declare isqrt.simps [simp del]

definition sqrt_round :: "int \<Rightarrow> int" where
  "sqrt_round N =
     (let t = nat (bitlen (isqrt N) - 53);
          q = isqrt (N div 4 ^ t);
          c = 4 ^ t * ((2 * q + 1) * (2 * q + 1))
      in (if c < 4 * N then q + 1
          else if c = 4 * N \<and> odd q then q + 1
          else q) * 2 ^ t)"

fun sqrt64 :: "float64 \<Rightarrow> float64" where
  "sqrt64 (Fin k) =
     (if k < 0 then NaN else if k = 0 then Fin 0 else Fin (sqrt_round (k * 2 ^ 1074)))"
| "sqrt64 PosInf = PosInf"
| "sqrt64 NegInf = NaN"
| "sqrt64 NaN = NaN"

text \<open>
  The division \<^verbatim>\<open>x / y\<close>. With a zero divisor numpy warns and yields an infinity or
  \<^verbatim>\<open>nan\<close>; as in \<open>true_divide\<close> above that case is the separate outcome \<open>ZeroDivide\<close>.
\<close>

fun true_divide64 :: "float64 \<Rightarrow> float64 \<Rightarrow> error + float64" where
  "true_divide64 x (Fin b) =
     (if b = 0 then Inl ZeroDivide
      else Inr (case x of
                  Fin a \<Rightarrow> round64 (sgn b * a * 2 ^ 1074) \<bar>b\<bar>
                | PosInf \<Rightarrow> (if 0 < b then PosInf else NegInf)
                | NegInf \<Rightarrow> (if 0 < b then NegInf else PosInf)
                | NaN \<Rightarrow> NaN))"
| "true_divide64 (Fin a) y = Inr (case y of NaN \<Rightarrow> NaN | _ \<Rightarrow> Fin 0)"
| "true_divide64 x y = Inr NaN"

text \<open>
  \<^verbatim>\<open>np.dot\<close> checks the shapes and hands the arrays to a BLAS routine, which is free
  to add the products in any order. The routine is therefore the parameter \<open>ddot\<close> of
  what follows, and the claim is proved for every such function. \<open>dot_kernel\<close> is
  one instance, adding from left to right.
\<close>

definition np_dot64 ::
  "(float64 list \<Rightarrow> float64 list \<Rightarrow> float64) \<Rightarrow> float64 list \<Rightarrow> float64 list
     \<Rightarrow> error + float64" where
  "np_dot64 ddot a b =
     (if length a \<noteq> length b
      then Inl (ValueError (''shapes ('' @ str_nat (length a) @ '',) and (''
                  @ str_nat (length b) @ '',) not aligned: ''
                  @ str_nat (length a) @ '' (dim 0) != '' @ str_nat (length b) @ '' (dim 0)''))
      else Inr (ddot a b))"

fun dot_kernel_from :: "float64 \<Rightarrow> float64 list \<Rightarrow> float64 list \<Rightarrow> float64" where
  "dot_kernel_from acc (x # xs) (y # ys) = dot_kernel_from (add64 acc (mul64 x y)) xs ys"
| "dot_kernel_from acc xs ys = acc"

definition dot_kernel :: "float64 list \<Rightarrow> float64 list \<Rightarrow> float64" where
  "dot_kernel a b = dot_kernel_from (Fin 0) a b"

text \<open>
  \<^verbatim>\<open>np.linalg.norm\<close> of a one-dimensional real array is \<^verbatim>\<open>sqrt(x.dot(x))\<close>.
\<close>

definition np_linalg_norm64 ::
  "(float64 list \<Rightarrow> float64 list \<Rightarrow> float64) \<Rightarrow> float64 list \<Rightarrow> float64" where
  "np_linalg_norm64 ddot v = sqrt64 (ddot v v)"

definition CosineSimilarity_calculate64 ::
  "(float64 list \<Rightarrow> float64 list \<Rightarrow> float64) \<Rightarrow> float64 list \<Rightarrow> float64 list
     \<Rightarrow> error + float64" where
  "CosineSimilarity_calculate64 ddot vector1 vector2 =
     (case np_dot64 ddot vector1 vector2 of
        Inl e \<Rightarrow> Inl e
      | Inr dot_product \<Rightarrow>
          (let norm1 = np_linalg_norm64 ddot vector1;
               norm2 = np_linalg_norm64 ddot vector2
           in if is_zero norm1 \<or> is_zero norm2 then Inr (Fin 0)
              else true_divide64 dot_product (mul64 norm1 norm2)))"

text \<open>The \<^verbatim>\<open>float64\<close> numbers written \<^verbatim>\<open>1e-200\<close>, \<^verbatim>\<open>1e200\<close>, \<^verbatim>\<open>1.0\<close> and \<^verbatim>\<open>2.0\<close>.\<close>

definition float64_1e_minus_200 :: float64 where
  "float64_1e_minus_200 = Fin (1723641332219371 * 2 ^ 359)"

definition float64_1e200 :: float64 where
  "float64_1e200 = Fin (2941796710330669 * 2 ^ 1687)"

definition float64_1 :: float64 where
  "float64_1 = Fin (2 ^ 1074)"

definition float64_2 :: float64 where
  "float64_2 = Fin (2 ^ 1075)"

subsection \<open>VectorItem, events and the store\<close>

type_synonym 'v metadata = "(string \<times> 'v) list"

record 'v VectorItem =
  item_id :: string
  vector :: vector
  metadata :: "'v metadata"
  created_at :: string

text \<open>\<^verbatim>\<open>metadata or {}\<close>: \<^verbatim>\<open>None\<close> and the empty dict both give the empty dict.\<close>

definition VectorItem_init :: "string \<Rightarrow> vector \<Rightarrow> 'v metadata option \<Rightarrow> 'v VectorItem" where
  "VectorItem_init i v md =
     \<lparr>item_id = i, vector = v,
      metadata = (case md of None \<Rightarrow> [] | Some m \<Rightarrow> m),
      created_at = ''2026-02-09''\<rparr>"

text \<open>The \<^verbatim>\<open>data\<close> dict of a notification, one constructor per shape the store sends.\<close>

datatype 'v event_data =
    IdMetadata string "'v metadata option"
  | IdOnly string
  | Message string

type_synonym 'v event = "string \<times> 'v event_data"

record ('v, 'o) ChromaVectorDB =
  embedding_dim :: int
  similarity_strategy :: SimilarityStrategy
  items :: "(string \<times> 'v VectorItem) list"
  observers :: "'o list"
  delivered :: "('o \<times> 'v event) list"

text \<open>
  \<open>delivered\<close> is not a field of the Python object: it is the sequence of calls
  \<^verbatim>\<open>observer.on_data_change(event_type, data)\<close> made so far, oldest first.
\<close>

definition init :: "int \<Rightarrow> SimilarityStrategy option \<Rightarrow> ('v, 'o) ChromaVectorDB" where
  "init edim strategy =
     \<lparr>embedding_dim = edim,
      similarity_strategy = (case strategy of None \<Rightarrow> CosineSimilarity | Some s \<Rightarrow> s),
      items = [], observers = [], delivered = []\<rparr>"

definition add_observer :: "('v, 'o) ChromaVectorDB \<Rightarrow> 'o \<Rightarrow> ('v, 'o) ChromaVectorDB" where
  "add_observer db observer = db\<lparr>observers := observers db @ [observer]\<rparr>"

definition notify_observers ::
  "('v, 'o) ChromaVectorDB \<Rightarrow> string \<Rightarrow> 'v event_data \<Rightarrow> ('v, 'o) ChromaVectorDB" where
  "notify_observers db event_type data =
     db\<lparr>delivered := delivered db @ map (\<lambda>observer. (observer, (event_type, data))) (observers db)\<rparr>"

definition dimension_message :: "int \<Rightarrow> string" where
  "dimension_message edim = ''Vector dimension must be '' @ str_int edim"

definition add ::
  "ConfigSingleton \<Rightarrow> ('v, 'o) ChromaVectorDB \<Rightarrow> string \<Rightarrow> vector \<Rightarrow> 'v metadata option
     \<Rightarrow> (error + bool) \<times> ('v, 'o) ChromaVectorDB" where
  "add config db i v md =
     (if int (length v) \<noteq> embedding_dim db
      then (Inl (ValueError (dimension_message (embedding_dim db))), db)
      else if int (length (items db)) \<ge> max_items config
      then (Inl (RuntimeError ''Database capacity reached''), db)
      else
        (let item = VectorItem_init i v md;
             db' = db\<lparr>items := AList.update i item (items db)\<rparr>
         in (Inr True, notify_observers db' ''add'' (IdMetadata i md))))"

subsection \<open>Batch insertion\<close>

text \<open>
  An element of the list given to \<^verbatim>\<open>batch_add\<close> is a dict, in which each of the keys
  \<^verbatim>\<open>"id"\<close>, \<^verbatim>\<open>"vector"\<close> and \<^verbatim>\<open>"metadata"\<close> may be absent.
\<close>

record 'v batch_item =
  batch_id :: "string option"
  batch_vector :: "vector option"
  batch_metadata :: "'v metadata option"

record failed_item =
  failed_id :: "string option"
  failed_error :: string

record batch_report =
  success_count :: nat
  failed_count :: nat
  failed_items :: "failed_item list"

text \<open>
  The body of the \<^verbatim>\<open>try\<close>: the arguments are evaluated left to right, so a missing
  \<^verbatim>\<open>"id"\<close> raises before a missing \<^verbatim>\<open>"vector"\<close>, and both before \<^verbatim>\<open>add\<close> runs.
\<close>

definition add_item ::
  "ConfigSingleton \<Rightarrow> ('v, 'o) ChromaVectorDB \<Rightarrow> 'v batch_item
     \<Rightarrow> (error + bool) \<times> ('v, 'o) ChromaVectorDB" where
  "add_item config db item =
     (case batch_id item of
        None \<Rightarrow> (Inl (KeyError ''id''), db)
      | Some i \<Rightarrow>
          (case batch_vector item of
             None \<Rightarrow> (Inl (KeyError ''vector''), db)
           | Some v \<Rightarrow> add config db i v (batch_metadata item)))"

text \<open>The \<^verbatim>\<open>for\<close> loop, with its two accumulators.\<close>

fun batch_add_loop ::
  "ConfigSingleton \<Rightarrow> ('v, 'o) ChromaVectorDB \<Rightarrow> nat \<Rightarrow> failed_item list \<Rightarrow> 'v batch_item list
     \<Rightarrow> (nat \<times> failed_item list) \<times> ('v, 'o) ChromaVectorDB" where
  "batch_add_loop config db success failed [] = ((success, failed), db)"
| "batch_add_loop config db success failed (item # rest) =
     (case add_item config db item of
        (Inr _, db') \<Rightarrow> batch_add_loop config db' (success + 1) failed rest
      | (Inl e, db') \<Rightarrow>
          batch_add_loop config db' success
            (failed @ [\<lparr>failed_id = batch_id item, failed_error = str_error e\<rparr>]) rest)"

definition batch_add ::
  "ConfigSingleton \<Rightarrow> ('v, 'o) ChromaVectorDB \<Rightarrow> 'v batch_item list
     \<Rightarrow> batch_report \<times> ('v, 'o) ChromaVectorDB" where
  "batch_add config db xs =
     (case batch_add_loop config db 0 [] xs of
        ((success, failed), db') \<Rightarrow>
          (\<lparr>success_count = success, failed_count = length failed, failed_items = failed\<rparr>, db'))"

subsection \<open>Lookup, update, delete, clear\<close>

definition get :: "('v, 'o) ChromaVectorDB \<Rightarrow> string \<Rightarrow> 'v VectorItem option" where
  "get db i = map_of (items db) i"

text \<open>
  \<^verbatim>\<open>update\<close> assigns to the fields of the object stored under the key; the model writes
  the changed record back under the same key, which keeps its position.
\<close>

definition update ::
  "('v, 'o) ChromaVectorDB \<Rightarrow> string \<Rightarrow> vector option \<Rightarrow> 'v metadata option
     \<Rightarrow> (error + bool) \<times> ('v, 'o) ChromaVectorDB" where
  "update db i v md =
     (case map_of (items db) i of
        None \<Rightarrow> (Inr False, db)
      | Some item \<Rightarrow>
          (case (case v of
                   None \<Rightarrow> Inr item
                 | Some vec \<Rightarrow>
                     if int (length vec) \<noteq> embedding_dim db
                     then Inl (ValueError (dimension_message (embedding_dim db)))
                     else Inr (item\<lparr>vector := vec\<rparr>)) of
             Inl e \<Rightarrow> (Inl e, db)
           | Inr item1 \<Rightarrow>
               (let item2 = (case md of None \<Rightarrow> item1 | Some m \<Rightarrow> item1\<lparr>metadata := m\<rparr>);
                    db' = db\<lparr>items := AList.update i item2 (items db)\<rparr>
                in (Inr True, notify_observers db' ''update'' (IdOnly i)))))"

definition delete ::
  "('v, 'o) ChromaVectorDB \<Rightarrow> string \<Rightarrow> bool \<times> ('v, 'o) ChromaVectorDB" where
  "delete db i =
     (case map_of (items db) i of
        None \<Rightarrow> (False, db)
      | Some _ \<Rightarrow>
          (True, notify_observers (db\<lparr>items := AList.delete i (items db)\<rparr>) ''delete'' (IdOnly i)))"

definition count :: "('v, 'o) ChromaVectorDB \<Rightarrow> nat" where
  "count db = length (items db)"

definition clear :: "('v, 'o) ChromaVectorDB \<Rightarrow> ('v, 'o) ChromaVectorDB" where
  "clear db = notify_observers (db\<lparr>items := []\<rparr>) ''clear'' (Message ''Database cleared'')"

subsection \<open>Query\<close>

record 'v query_result =
  result_id :: string
  similarity :: real
  result_metadata :: "'v metadata"

text \<open>
  The scoring loop over \<^verbatim>\<open>self._items.items()\<close>. The threshold is the value that
  \<^verbatim>\<open>self._config.similarity_threshold\<close> has while the query runs.
\<close>

fun query_loop ::
  "SimilarityStrategy \<Rightarrow> real \<Rightarrow> ('v metadata \<Rightarrow> bool) option \<Rightarrow> vector
     \<Rightarrow> (string \<times> 'v VectorItem) list \<Rightarrow> 'v query_result list
     \<Rightarrow> error + 'v query_result list" where
  "query_loop strategy threshold flt query_vector [] results = Inr results"
| "query_loop strategy threshold flt query_vector ((i, item) # rest) results =
     (if (case flt of None \<Rightarrow> False | Some f \<Rightarrow> \<not> f (metadata item))
      then query_loop strategy threshold flt query_vector rest results
      else
        (case calculate strategy query_vector (vector item) of
           Inl e \<Rightarrow> Inl e
         | Inr s \<Rightarrow>
             if s \<ge> threshold
             then query_loop strategy threshold flt query_vector rest
                    (results @ [\<lparr>result_id = i, similarity = s, result_metadata = metadata item\<rparr>])
             else query_loop strategy threshold flt query_vector rest results))"

text \<open>
  \<^verbatim>\<open>list.sort(key=..., reverse=True)\<close>: the list is reversed, sorted stably in ascending
  order of the key, and reversed again, so that equal keys keep their order.
\<close>

definition sort_reverse :: "('a \<Rightarrow> real) \<Rightarrow> 'a list \<Rightarrow> 'a list" where
  "sort_reverse key xs = rev (sort_key key (rev xs))"

text \<open>The slice \<^verbatim>\<open>xs[:k]\<close>: a negative \<^verbatim>\<open>k\<close> counts from the end of the list.\<close>

definition slice_to :: "'a list \<Rightarrow> int \<Rightarrow> 'a list" where
  "slice_to xs k = (if k < 0 then take (nat (int (length xs) + k)) xs else take (nat k) xs)"

definition query ::
  "ConfigSingleton \<Rightarrow> ('v, 'o) ChromaVectorDB \<Rightarrow> vector \<Rightarrow> int \<Rightarrow> ('v metadata \<Rightarrow> bool) option
     \<Rightarrow> error + 'v query_result list" where
  "query config db query_vector top_k flt =
     (if int (length query_vector) \<noteq> embedding_dim db
      then Inl (ValueError (''Query vector dimension must be '' @ str_int (embedding_dim db)))
      else
        (case query_loop (similarity_strategy db) (similarity_threshold config) flt query_vector
                (items db) [] of
           Inl e \<Rightarrow> Inl e
         | Inr results \<Rightarrow> Inr (slice_to (sort_reverse similarity results) top_k)))"

subsection \<open>Reference definitions for the batch report\<close>

text \<open>
  The outcome of a batch as the specification words it: every item is attempted, in
  input order, in the state the items before it left behind, whatever their outcome.
  \<open>attempts\<close> lists the outcome of each attempt; it is compared below with the report
  that the accumulators of \<open>batch_add_loop\<close> build.
\<close>

fun attempts ::
  "ConfigSingleton \<Rightarrow> ('v, 'o) ChromaVectorDB \<Rightarrow> 'v batch_item list
     \<Rightarrow> (error + bool) list \<times> ('v, 'o) ChromaVectorDB" where
  "attempts config db [] = ([], db)"
| "attempts config db (x # xs) =
     (case add_item config db x of
        (r, db') \<Rightarrow> (case attempts config db' xs of (rs, db'') \<Rightarrow> (r # rs, db'')))"

fun succeeded :: "error + bool \<Rightarrow> bool" where
  "succeeded (Inr _) = True"
| "succeeded (Inl _) = False"

definition failures :: "'v batch_item list \<Rightarrow> (error + bool) list \<Rightarrow> failed_item list" where
  "failures xs rs =
     List.map_filter
       (\<lambda>(x, r). case r of
                   Inl e \<Rightarrow> Some \<lparr>failed_id = batch_id x, failed_error = str_error e\<rparr>
                 | Inr _ \<Rightarrow> None)
       (zip xs rs)"

subsection \<open>The invariant of the store\<close>

text \<open>
  Every stored vector has the embedding dimension of the store. \<open>init\<close> establishes
  this and every method keeps it, because \<open>add\<close> and \<open>update\<close> check the length before
  they store a vector.
\<close>

definition store_inv :: "('v, 'o) ChromaVectorDB \<Rightarrow> bool" where
  "store_inv db =
     list_all (\<lambda>(i, item). int (length (vector item)) = embedding_dim db) (items db)"

text \<open>The two strategies that the module itself provides.\<close>

fun builtin :: "SimilarityStrategy \<Rightarrow> bool" where
  "builtin CosineSimilarity = True"
| "builtin EuclideanSimilarity = True"
| "builtin (Subclass f) = False"

section \<open>Auxiliary facts\<close>

lemma dimension_message_1: "dimension_message 1 = ''Vector dimension must be 1''"
  by code_simp

lemma dimension_message_2: "dimension_message 2 = ''Vector dimension must be 2''"
  by code_simp

lemma np_linalg_norm_nonneg: "0 \<le> np_linalg_norm v"
proof -
  have "0 \<le> (\<Sum>x\<leftarrow>v. x * x)"
    by (rule sum_list_nonneg) auto
  then show ?thesis
    by (simp add: np_linalg_norm_def)
qed

lemma CosineSimilarity_calculate_eq:
  assumes "length a = length b"
  shows "CosineSimilarity_calculate a b =
     Inr (if np_linalg_norm a = 0 \<or> np_linalg_norm b = 0 then 0
          else (\<Sum>(x, y)\<leftarrow>zip a b. x * y) / (np_linalg_norm a * np_linalg_norm b))"
  using assms
  by (simp add: CosineSimilarity_calculate_def np_dot_def true_divide_def Let_def)

lemma EuclideanSimilarity_calculate_returns:
  assumes "length a = length b"
  shows "\<exists>s. EuclideanSimilarity_calculate a b = Inr s"
proof -
  have "1 + np_linalg_norm (map (\<lambda>(x, y). x - y) (zip a b)) \<noteq> 0"
    using np_linalg_norm_nonneg [of "map (\<lambda>(x, y). x - y) (zip a b)"] by linarith
  then show ?thesis
    using assms
    by (simp add: EuclideanSimilarity_calculate_def np_subtract_def true_divide_def)
qed

text \<open>Over the reals, neither provided strategy divides by zero.\<close>

lemma calculate_builtin_divisor:
  assumes "builtin strategy"
  shows "calculate strategy a b \<noteq> Inl ZeroDivide"
proof (cases strategy)
  case CosineSimilarity
  then show ?thesis
    by (simp add: CosineSimilarity_calculate_def np_dot_def true_divide_def Let_def)
next
  case EuclideanSimilarity
  have "1 + np_linalg_norm d \<noteq> 0" for d
    using np_linalg_norm_nonneg [of d] by linarith
  with EuclideanSimilarity show ?thesis
    by (simp add: EuclideanSimilarity_calculate_def np_subtract_def true_divide_def
        split: sum.splits)
next
  case (Subclass f)
  with assms show ?thesis by simp
qed

lemma failures_Nil [simp]: "failures [] rs = []"
  by (simp add: failures_def List.map_filter_simps)

lemma failures_Inl [simp]:
  "failures (x # xs) (Inl e # rs) =
     \<lparr>failed_id = batch_id x, failed_error = str_error e\<rparr> # failures xs rs"
  by (simp add: failures_def List.map_filter_simps)

lemma failures_Inr [simp]: "failures (x # xs) (Inr b # rs) = failures xs rs"
  by (simp add: failures_def List.map_filter_simps)

lemma length_attempts: "length (fst (attempts config db xs)) = length xs"
proof (induction xs arbitrary: db)
  case Nil
  show ?case by simp
next
  case (Cons x xs)
  obtain r db' where r: "add_item config db x = (r, db')"
    by (cases "add_item config db x")
  obtain rs db'' where rs: "attempts config db' xs = (rs, db'')"
    by (cases "attempts config db' xs")
  with r Cons.IH [of db'] show ?case by simp
qed

text \<open>The accumulators of the loop hold what \<open>attempts\<close> lists, whatever they start from.\<close>

lemma batch_add_loop_attempts:
  "batch_add_loop config db success failed xs =
     ((success + length (filter succeeded (fst (attempts config db xs))),
       failed @ failures xs (fst (attempts config db xs))),
      snd (attempts config db xs))"
proof (induction xs arbitrary: db success failed)
  case Nil
  show ?case by simp
next
  case (Cons x xs)
  obtain r db' where r: "add_item config db x = (r, db')"
    by (cases "add_item config db x")
  obtain rs db'' where rs: "attempts config db' xs = (rs, db'')"
    by (cases "attempts config db' xs")
  show ?case
  proof (cases r)
    case (Inl e)
    with r rs
      Cons.IH [of db' success "failed @ [\<lparr>failed_id = batch_id x, failed_error = str_error e\<rparr>]"]
    show ?thesis by simp
  next
    case (Inr b)
    with r rs Cons.IH [of db' "success + 1" failed] show ?thesis by simp
  qed
qed

lemma length_failures:
  "length rs = length xs \<Longrightarrow>
     length (failures xs rs) + length (filter succeeded rs) = length xs"
proof (induction xs arbitrary: rs)
  case Nil
  then show ?case by simp
next
  case (Cons x xs)
  then obtain r rs' where "rs = r # rs'"
    by (cases rs) auto
  with Cons show ?case
    by (cases r) auto
qed

lemma attempts_append:
  "attempts config db (xs @ ys) =
     (fst (attempts config db xs) @ fst (attempts config (snd (attempts config db xs)) ys),
      snd (attempts config (snd (attempts config db xs)) ys))"
proof (induction xs arbitrary: db)
  case Nil
  show ?case by simp
next
  case (Cons x xs)
  obtain r db' where r: "add_item config db x = (r, db')"
    by (cases "add_item config db x")
  show ?case
    using Cons.IH [of db'] r by (simp split: prod.splits)
qed

lemma failures_append:
  "length rs = length xs \<Longrightarrow> failures (xs @ ys) (rs @ rs') = failures xs rs @ failures ys rs'"
  by (simp add: failures_def List.map_filter_def)

section \<open>Insertion\<close>

text \<open>
  Claim C4. For a store of embedding dimension \<open>D\<close> and a vector whose length is not
  \<open>D\<close>, \<open>add\<close> raises the dimension \<^verbatim>\<open>ValueError\<close> and leaves the store as it was: the
  records, their number and the calls made to the observers are those from before
  the call.
\<close>

theorem add_dimension_mismatch:
  assumes "int (length v) \<noteq> embedding_dim db"
  shows "add config db i v md = (Inl (ValueError (dimension_message (embedding_dim db))), db)
       \<and> count (snd (add config db i v md)) = count db
       \<and> items (snd (add config db i v md)) = items db
       \<and> delivered (snd (add config db i v md)) = delivered db"
  using assms by (simp add: add_def)

theorem add_dimension_mismatch_witness:
  "add initialize
     \<lparr>embedding_dim = 2, similarity_strategy = CosineSimilarity,
      items = [], observers = [0::nat], delivered = []\<rparr> ''x'' [1, 2, 3] (Some [(''k'', True)])
   = (Inl (ValueError ''Vector dimension must be 2''),
      \<lparr>embedding_dim = 2, similarity_strategy = CosineSimilarity,
       items = [], observers = [0], delivered = []\<rparr>)"
  using add_dimension_mismatch
    [of "[1, 2, 3]"
        "\<lparr>embedding_dim = 2, similarity_strategy = CosineSimilarity,
          items = [], observers = [0::nat], delivered = []\<rparr>"
        initialize "''x''" "Some [(''k'', True)]"]
  by (simp add: dimension_message_2)

text \<open>
  Claim C5. When the number of records equals the configured \<^verbatim>\<open>max_items\<close>, \<open>add\<close> of
  a vector of the right dimension raises the capacity \<^verbatim>\<open>RuntimeError\<close> and leaves the
  store as it was, also when the identifier is already present: nothing is added or
  overwritten and no observer is called.
\<close>

theorem add_at_capacity:
  assumes "int (length v) = embedding_dim db"
    and "int (count db) = max_items config"
  shows "add config db i v md = (Inl (RuntimeError ''Database capacity reached''), db)
       \<and> count (snd (add config db i v md)) = count db
       \<and> items (snd (add config db i v md)) = items db
       \<and> delivered (snd (add config db i v md)) = delivered db"
  using assms by (simp add: add_def count_def)

theorem add_at_capacity_witness:
  "add \<lparr>default_embedding_dim = 128, similarity_threshold = 0.8, max_items = 1\<rparr>
     \<lparr>embedding_dim = 1, similarity_strategy = CosineSimilarity,
      items = [(''a'', VectorItem_init ''a'' [1] None)], observers = [0::nat],
      delivered = [(0, (''add'', IdMetadata ''a'' (None :: bool metadata option)))]\<rparr>
     ''a'' [5] None
   = (Inl (RuntimeError ''Database capacity reached''),
      \<lparr>embedding_dim = 1, similarity_strategy = CosineSimilarity,
       items = [(''a'', VectorItem_init ''a'' [1] None)], observers = [0],
       delivered = [(0, (''add'', IdMetadata ''a'' None))]\<rparr>)"
  using add_at_capacity
    [of "[5]"
        "\<lparr>embedding_dim = 1, similarity_strategy = CosineSimilarity,
          items = [(''a'', VectorItem_init ''a'' [1] None)], observers = [0::nat],
          delivered = [(0, (''add'', IdMetadata ''a'' (None :: bool metadata option)))]\<rparr>"
        "\<lparr>default_embedding_dim = 128, similarity_threshold = 0.8, max_items = 1\<rparr>"
        "''a''" None]
  by (simp add: count_def)

text \<open>
  Claim C7. \<open>batch_add\<close> has no failing outcome: it returns a report for every input
  list. The report is the one the reference definitions give: each item is attempted
  in input order in the state its predecessors left, whether they failed or not;
  \<open>success_count\<close> is the number of attempts that succeeded, and \<open>failed_items\<close> lists,
  in order, the identifier and the error text of each attempt that failed. Every item
  is attempted, so the two counts add up to the length of the input. A batch that
  continues with further items \<open>ys\<close> treats them as a batch of their own, started in
  the state the items \<open>xs\<close> left: failures among \<open>xs\<close> do not stop it.
\<close>

theorem batch_add_report:
  "batch_add config db xs =
     (\<lparr>success_count = length (filter succeeded (fst (attempts config db xs))),
       failed_count = length (failures xs (fst (attempts config db xs))),
       failed_items = failures xs (fst (attempts config db xs))\<rparr>,
      snd (attempts config db xs))
   \<and> length (fst (attempts config db xs)) = length xs
   \<and> success_count (fst (batch_add config db xs)) + failed_count (fst (batch_add config db xs))
       = length xs
   \<and> batch_add config db (xs @ ys) =
       (\<lparr>success_count = success_count (fst (batch_add config db xs))
           + success_count (fst (batch_add config (snd (batch_add config db xs)) ys)),
         failed_count = failed_count (fst (batch_add config db xs))
           + failed_count (fst (batch_add config (snd (batch_add config db xs)) ys)),
         failed_items = failed_items (fst (batch_add config db xs))
           @ failed_items (fst (batch_add config (snd (batch_add config db xs)) ys))\<rparr>,
        snd (batch_add config (snd (batch_add config db xs)) ys))"
  using length_failures [of "fst (attempts config db xs)" xs]
  by (simp add: batch_add_def batch_add_loop_attempts length_attempts attempts_append
      failures_append)

theorem batch_add_report_witness:
  "fst (batch_add \<lparr>default_embedding_dim = 128, similarity_threshold = 0.8, max_items = 2\<rparr>
         (init 1 None :: (bool, nat) ChromaVectorDB)
         [\<lparr>batch_id = Some ''a'', batch_vector = Some [1], batch_metadata = None\<rparr>,
          \<lparr>batch_id = Some ''b'', batch_vector = Some [1, 2], batch_metadata = None\<rparr>,
          \<lparr>batch_id = Some ''c'', batch_vector = None, batch_metadata = None\<rparr>,
          \<lparr>batch_id = Some ''d'', batch_vector = Some [2], batch_metadata = Some [(''k'', True)]\<rparr>,
          \<lparr>batch_id = Some ''e'', batch_vector = Some [3], batch_metadata = None\<rparr>])
   = \<lparr>success_count = 2, failed_count = 3,
      failed_items =
        [\<lparr>failed_id = Some ''b'', failed_error = ''Vector dimension must be 1''\<rparr>,
         \<lparr>failed_id = Some ''c'', failed_error = [CHR 0x27] @ ''vector'' @ [CHR 0x27]\<rparr>,
         \<lparr>failed_id = Some ''e'', failed_error = ''Database capacity reached''\<rparr>]\<rparr>
   \<and> map fst (items (snd (batch_add
         \<lparr>default_embedding_dim = 128, similarity_threshold = 0.8, max_items = 2\<rparr>
         (init 1 None :: (bool, nat) ChromaVectorDB)
         [\<lparr>batch_id = Some ''a'', batch_vector = Some [1], batch_metadata = None\<rparr>,
          \<lparr>batch_id = Some ''b'', batch_vector = Some [1, 2], batch_metadata = None\<rparr>,
          \<lparr>batch_id = Some ''c'', batch_vector = None, batch_metadata = None\<rparr>,
          \<lparr>batch_id = Some ''d'', batch_vector = Some [2], batch_metadata = Some [(''k'', True)]\<rparr>,
          \<lparr>batch_id = Some ''e'', batch_vector = Some [3], batch_metadata = None\<rparr>])))
     = [''a'', ''d'']"
  using batch_add_report
    [of "\<lparr>default_embedding_dim = 128, similarity_threshold = 0.8, max_items = 2\<rparr>"
        "init 1 None :: (bool, nat) ChromaVectorDB"
        "[\<lparr>batch_id = Some ''a'', batch_vector = Some [1], batch_metadata = None\<rparr>,
          \<lparr>batch_id = Some ''b'', batch_vector = Some [1, 2], batch_metadata = None\<rparr>,
          \<lparr>batch_id = Some ''c'', batch_vector = None, batch_metadata = None\<rparr>,
          \<lparr>batch_id = Some ''d'', batch_vector = Some [2], batch_metadata = Some [(''k'', True)]\<rparr>,
          \<lparr>batch_id = Some ''e'', batch_vector = Some [3], batch_metadata = None\<rparr>]"
        "[]"]
  by (simp add: init_def add_item_def add_def notify_observers_def dimension_message_1)

section \<open>Update and clear\<close>

text \<open>
  Claim C6. For an identifier that is present, \<open>update\<close> with a vector whose length is
  not the embedding dimension raises the dimension \<^verbatim>\<open>ValueError\<close> before anything is
  assigned: the store, and with it the record's vector and metadata, is as before,
  also when new metadata was supplied, and no observer is called.
\<close>

theorem update_dimension_mismatch:
  assumes "get db i = Some item"
    and "int (length v) \<noteq> embedding_dim db"
  shows "update db i (Some v) md
           = (Inl (ValueError (dimension_message (embedding_dim db))), db)
       \<and> get (snd (update db i (Some v) md)) i = Some item
       \<and> delivered (snd (update db i (Some v) md)) = delivered db"
  using assms by (simp add: update_def get_def)

theorem update_dimension_mismatch_witness:
  "update
     \<lparr>embedding_dim = 1, similarity_strategy = CosineSimilarity,
      items = [(''a'', VectorItem_init ''a'' [1] None)], observers = [0::nat], delivered = []\<rparr>
     ''a'' (Some [1, 2]) (Some [(''k'', True)])
   = (Inl (ValueError ''Vector dimension must be 1''),
      \<lparr>embedding_dim = 1, similarity_strategy = CosineSimilarity,
       items = [(''a'', VectorItem_init ''a'' [1] None)], observers = [0], delivered = []\<rparr>)"
  using update_dimension_mismatch
    [of "\<lparr>embedding_dim = 1, similarity_strategy = CosineSimilarity,
          items = [(''a'', VectorItem_init ''a'' [1] None)], observers = [0::nat], delivered = []\<rparr>"
        "''a''" "VectorItem_init ''a'' [1] None" "[1, 2]" "Some [(''k'', True)]"]
  by (simp add: get_def dimension_message_1)

text \<open>
  Claim C10. For an identifier that is present, \<open>update\<close> with neither a vector nor
  metadata returns \<^verbatim>\<open>True\<close> and calls every subscribed observer once, in subscription
  order, with the \<^verbatim>\<open>update\<close> event of that identifier; the records are untouched.
\<close>

theorem update_without_arguments:
  assumes "get db i = Some item"
  shows "update db i None None =
           (Inr True,
            db\<lparr>delivered :=
                 delivered db @ map (\<lambda>observer. (observer, (''update'', IdOnly i))) (observers db)\<rparr>)
       \<and> items (snd (update db i None None)) = items db
       \<and> get (snd (update db i None None)) i = Some item"
  using assms by (simp add: update_def get_def notify_observers_def AList.update_triv)

theorem update_without_arguments_witness:
  "update
     \<lparr>embedding_dim = 1, similarity_strategy = CosineSimilarity,
      items = [(''a'', VectorItem_init ''a'' [1] (Some [(''k'', True)]))],
      observers = [0::nat, 1], delivered = []\<rparr>
     ''a'' None None
   = (Inr True,
      \<lparr>embedding_dim = 1, similarity_strategy = CosineSimilarity,
       items = [(''a'', VectorItem_init ''a'' [1] (Some [(''k'', True)]))],
       observers = [0, 1],
       delivered = [(0, (''update'', IdOnly ''a'')), (1, (''update'', IdOnly ''a''))]\<rparr>)"
  using update_without_arguments
    [of "\<lparr>embedding_dim = 1, similarity_strategy = CosineSimilarity,
          items = [(''a'', VectorItem_init ''a'' [1] (Some [(''k'', True)]))],
          observers = [0::nat, 1], delivered = []\<rparr>"
        "''a''" "VectorItem_init ''a'' [1] (Some [(''k'', True)])"]
  by (simp add: get_def)

text \<open>
  Claim C9. \<open>clear\<close> removes every record, so that \<open>count\<close> is \<open>0\<close> afterwards, and
  publishes the \<^verbatim>\<open>clear\<close> event once: each subscribed observer is called exactly once
  with it, however many records the store held.
\<close>

theorem clear_empties_and_notifies_once:
  "count (clear db) = 0
   \<and> items (clear db) = []
   \<and> delivered (clear db) =
       delivered db
         @ map (\<lambda>observer. (observer, (''clear'', Message ''Database cleared''))) (observers db)
   \<and> length (delivered (clear db)) = length (delivered db) + length (observers db)"
  by (simp add: clear_def count_def notify_observers_def)

theorem clear_empties_and_notifies_once_witness:
  "clear
     \<lparr>embedding_dim = 1, similarity_strategy = CosineSimilarity,
      items = [(''a'', VectorItem_init ''a'' [1] None), (''b'', VectorItem_init ''b'' [2] None),
               (''c'', VectorItem_init ''c'' [3] (Some [(''k'', True)]))],
      observers = [7::nat], delivered = []\<rparr>
   = \<lparr>embedding_dim = 1, similarity_strategy = CosineSimilarity,
      items = [], observers = [7],
      delivered = [(7, (''clear'', Message ''Database cleared''))]\<rparr>"
  using clear_empties_and_notifies_once
    [of "\<lparr>embedding_dim = 1, similarity_strategy = CosineSimilarity,
          items = [(''a'', VectorItem_init ''a'' [1] None), (''b'', VectorItem_init ''b'' [2] None),
                   (''c'', VectorItem_init ''c'' [3] (Some [(''k'', True)]))],
          observers = [7::nat], delivered = []\<rparr>"]
  by (simp add: clear_def notify_observers_def)

section \<open>Facts about float64 rounding\<close>

lemma isqrt_bounds:
  "0 \<le> n \<Longrightarrow> 0 \<le> isqrt n \<and> isqrt n * isqrt n \<le> n \<and> n < (isqrt n + 1) * (isqrt n + 1)"
proof (induction n rule: isqrt.induct)
  case (1 n)
  show ?case
  proof (cases "n < 4")
    case True
    with "1.prems" show ?thesis
      by (cases "n \<le> 0") (simp_all add: isqrt.simps [of n] isqrt.simps [of 0])
  next
    case False
    define m where "m = n div 4"
    define s where "s = isqrt m"
    have m: "4 * m \<le> n" "n < 4 * m + 4" "0 \<le> m"
      using False by (simp_all add: m_def)
    from False "1.IH" m(3) have IH: "0 \<le> s" "s * s \<le> m" "m < (s + 1) * (s + 1)"
      by (simp_all add: m_def s_def)
    have eq: "isqrt n = (if (2 * s + 1) * (2 * s + 1) \<le> n then 2 * s + 1 else 2 * s)"
      using False by (simp add: isqrt.simps [of n] Let_def s_def m_def)
    show ?thesis
    proof (cases "(2 * s + 1) * (2 * s + 1) \<le> n")
      case True
      have "m + 1 \<le> (s + 1) * (s + 1)"
        using IH(3) by simp
      then have "4 * m + 4 \<le> 4 * ((s + 1) * (s + 1))"
        by simp
      also have "\<dots> = (2 * s + 1 + 1) * (2 * s + 1 + 1)"
        by (simp add: algebra_simps)
      finally have "n < (2 * s + 1 + 1) * (2 * s + 1 + 1)"
        using m(2) by simp
      with True eq IH(1) show ?thesis by simp
    next
      case False
      have "(2 * s) * (2 * s) = 4 * (s * s)"
        by simp
      also have "\<dots> \<le> 4 * m"
        using IH(2) by simp
      finally have "(2 * s) * (2 * s) \<le> n"
        using m(1) by simp
      with False eq IH(1) show ?thesis by simp
    qed
  qed
qed

lemma isqrt_ge:
  assumes "0 \<le> m" and "m * m \<le> n"
  shows "m \<le> isqrt n"
proof (rule ccontr)
  assume "\<not> m \<le> isqrt n"
  then have gt: "isqrt n + 1 \<le> m" by simp
  have n: "0 \<le> n"
    using assms(2) by (rule order_trans [rotated]) simp
  have nonneg: "0 \<le> isqrt n + 1"
    using isqrt_bounds [OF n] by simp
  have "(isqrt n + 1) * (isqrt n + 1) \<le> m * m"
    using gt gt nonneg nonneg by (rule mult_mono')
  with assms(2) isqrt_bounds [OF n] show False by simp
qed

lemma round_half_even_ge: "n div d \<le> round_half_even n d"
  by (simp add: round_half_even_def Let_def)

lemma le_div_int: "a * c \<le> N \<Longrightarrow> 0 < c \<Longrightarrow> a \<le> N div (c::int)"
  using zdiv_mono1 [of "a * c" N c] by simp

lemma four_power: "(4::int) ^ t = 2 ^ t * 2 ^ t"
proof -
  have "(4::int) ^ t = (2 * 2) ^ t" by simp
  also have "\<dots> = 2 ^ t * 2 ^ t" by (rule power_mult_distrib)
  finally show ?thesis .
qed

text \<open>Rounding never takes a magnitude below a power of two that it has reached.\<close>

lemma round_mag_ge:
  assumes d: "0 < d" and q: "2 ^ e \<le> n div d"
  shows "2 ^ e \<le> round_mag n d"
proof -
  define q0 where "q0 = n div d"
  have q0: "2 ^ e \<le> q0"
    using q by (simp add: q0_def)
  then have pos: "0 < q0"
    by (rule less_le_trans [rotated]) simp
  show ?thesis
  proof (cases "bitlen q0 \<le> 53")
    case True
    with round_half_even_ge [of n d] q0 show ?thesis
      by (simp add: round_mag_def q0_def Let_def)
  next
    case False
    define t where "t = nat (bitlen q0 - 53)"
    have sb: "2 ^ nat (bitlen q0 - 1) \<le> q0" "q0 < 2 ^ nat (bitlen q0)"
      using bitlen_bounds [OF pos] by simp_all
    from False have te: "52 + t = nat (bitlen q0 - 1)"
      by (simp add: t_def)
    have "(2::int) ^ e < 2 ^ nat (bitlen q0)"
      using q0 sb(2) by (rule le_less_trans)
    then have "e < nat (bitlen q0)"
      by (simp only: power_strict_increasing_iff one_less_numeral_iff semiring_norm)
    with te have et: "e \<le> 52 + t"
      by linarith
    have "(2::int) ^ 52 * 2 ^ t = 2 ^ (52 + t)"
      by (rule power_add [symmetric])
    also have "\<dots> \<le> q0"
      unfolding te by (rule sb(1))
    finally have "(2::int) ^ 52 \<le> q0 div 2 ^ t"
      by (rule le_div_int) simp
    moreover have "n div (d * 2 ^ t) = q0 div 2 ^ t"
      by (simp add: q0_def zdiv_zmult2_eq)
    ultimately have "2 ^ 52 \<le> round_half_even n (d * 2 ^ t)"
      using round_half_even_ge [of n "d * 2 ^ t"] by simp
    then have c: "(2::int) ^ 52 * 2 ^ t \<le> round_half_even n (d * 2 ^ t) * 2 ^ t"
      by (intro mult_right_mono) simp_all
    have "(2::int) ^ e \<le> 2 ^ (52 + t)"
      using et by (intro power_increasing) simp_all
    also have "\<dots> = 2 ^ 52 * 2 ^ t"
      by (rule power_add)
    also note c
    finally have "2 ^ e \<le> round_half_even n (d * 2 ^ t) * 2 ^ t" .
    with False show ?thesis
      by (simp add: round_mag_def Let_def flip: q0_def t_def)
  qed
qed

text \<open>A quotient of magnitude at least one unit does not round to zero.\<close>

lemma round64_not_zero:
  assumes "0 < d" and "d \<le> \<bar>n\<bar>"
  shows "\<not> is_zero (round64 n d)"
proof -
  from assms have "0 < \<bar>n\<bar> div d"
    by (simp add: pos_imp_zdiv_pos_iff)
  then have "2 ^ 0 \<le> \<bar>n\<bar> div d"
    by simp
  with assms(1) have "2 ^ 0 \<le> round_mag \<bar>n\<bar> d"
    by (rule round_mag_ge)
  then have "0 < round_mag \<bar>n\<bar> d"
    by simp
  moreover from assms have "n \<noteq> 0" by auto
  ultimately show ?thesis
    by (simp add: round64_def Let_def sgn_if)
qed

lemma round64_zero: "0 < d \<Longrightarrow> round64 0 d = Fin 0"
  by (simp add: round64_def round_mag_def round_half_even_def)

text \<open>Underflow: less than half a unit rounds to zero.\<close>

lemma round64_underflow: "0 \<le> n \<Longrightarrow> 2 * n < d \<Longrightarrow> round64 n d = Fin 0"
  by (simp add: round64_def round_mag_def round_half_even_def Let_def)

lemma round64_overflow:
  assumes "0 < d" and "2 ^ 2098 * d \<le> n"
  shows "round64 n d = PosInf"
proof -
  from assms have n: "0 < n"
    by (meson less_le_trans mult_pos_pos zero_less_numeral zero_less_power)
  from assms(2) assms(1) have "2 ^ 2098 \<le> n div d"
    by (rule le_div_int)
  with assms(1) have "2 ^ 2098 \<le> round_mag n d"
    by (rule round_mag_ge)
  with n show ?thesis
    by (simp add: round64_def Let_def)
qed

text \<open>
  The rounded root of a number of at least \<^verbatim>\<open>4**e\<close> units is at least \<^verbatim>\<open>2**e\<close>
  units.
\<close>

lemma sqrt_round_ge_general:
  assumes e: "53 \<le> e" and N: "(2::int) ^ e * 2 ^ e \<le> N"
  shows "2 ^ e \<le> sqrt_round N"
proof -
  define s where "s = isqrt N"
  define t where "t = nat (bitlen s - 53)"
  define q where "q = isqrt (N div 4 ^ t)"
  have Npos: "0 \<le> N"
    using N by (rule order_trans [rotated]) simp
  have se: "2 ^ e \<le> s"
    unfolding s_def using N by (intro isqrt_ge) simp_all
  then have spos: "0 < s"
    by (rule less_le_trans [rotated]) simp
  have sb: "2 ^ nat (bitlen s - 1) \<le> s" "s < 2 ^ nat (bitlen s)"
    using bitlen_bounds [OF spos] by simp_all
  have "(2::int) ^ e < 2 ^ nat (bitlen s)"
    using se sb(2) by (rule le_less_trans)
  then have L: "e < nat (bitlen s)"
    by (simp only: power_strict_increasing_iff one_less_numeral_iff semiring_norm)
  with e have te: "52 + t = nat (bitlen s - 1)"
    by (simp add: t_def)
  from L te have et: "e \<le> 52 + t"
    by linarith
  have ss: "s * s \<le> N"
    using isqrt_bounds [OF Npos] by (simp add: s_def)
  have "((2::int) ^ 52 * 2 ^ 52) * 4 ^ t = 2 ^ (52 + t) * 2 ^ (52 + t)"
    by (simp only: four_power power_add) (simp only: mult_ac)
  also have "\<dots> \<le> s * s"
    unfolding te using sb(1) spos by (intro mult_mono) simp_all
  also note ss
  finally have "((2::int) ^ 52 * 2 ^ 52) * 4 ^ t \<le> N" .
  then have "(2::int) ^ 52 * 2 ^ 52 \<le> N div 4 ^ t"
    by (rule le_div_int) simp
  then have q52: "2 ^ 52 \<le> q"
    unfolding q_def by (intro isqrt_ge) simp_all
  have "(2::int) ^ e \<le> 2 ^ (52 + t)"
    using et by (intro power_increasing) simp_all
  also have "\<dots> = 2 ^ 52 * 2 ^ t"
    by (rule power_add)
  also have "\<dots> \<le> q * 2 ^ t"
    using q52 by (intro mult_right_mono) simp_all
  finally have low: "2 ^ e \<le> q * 2 ^ t" .
  have "q * 2 ^ t \<le> (q + 1) * 2 ^ t"
    by (intro mult_right_mono) simp_all
  with low have "2 ^ e \<le> (q + 1) * 2 ^ t"
    by (rule order_trans)
  with low show ?thesis
    by (simp add: sqrt_round_def Let_def flip: s_def t_def q_def)
qed

lemma sqrt_round_ge:
  assumes "2 ^ 1074 \<le> N"
  shows "2 ^ 537 \<le> sqrt_round N"
proof -
  have "(2::int) ^ 537 * 2 ^ 537 = 2 ^ 1074"
    by (simp only: power_add [symmetric]) simp
  with assms show ?thesis
    by (intro sqrt_round_ge_general) simp_all
qed

text \<open>
  A \<^verbatim>\<open>float64\<close> square root is zero, \<^verbatim>\<open>nan\<close>, infinite, or at least \<^verbatim>\<open>2**-537\<close>, that is
  \<^verbatim>\<open>2**537\<close> units: the root of the smallest positive \<^verbatim>\<open>float64\<close>.
\<close>

lemma sqrt64_cases:
  "is_zero (sqrt64 s) \<or> sqrt64 s = NaN \<or> sqrt64 s = PosInf
     \<or> (\<exists>K. sqrt64 s = Fin K \<and> 2 ^ 537 \<le> K)"
proof (cases s)
  case (Fin k)
  show ?thesis
  proof (cases "0 < k")
    case True
    then have "(2::int) ^ 1074 \<le> k * 2 ^ 1074"
      by simp
    then have "2 ^ 537 \<le> sqrt_round (k * 2 ^ 1074)"
      by (rule sqrt_round_ge)
    with True Fin show ?thesis by simp
  next
    case False
    with Fin show ?thesis by auto
  qed
qed simp_all

text \<open>
  Hence the product of two non-zero norms is not zero: two finite factors of at
  least \<^verbatim>\<open>2**-537\<close> have an exact product of at least \<^verbatim>\<open>2**-1074\<close>, one unit, which does
  not round to zero.
\<close>

lemma mul64_sqrt64_not_zero:
  assumes "\<not> is_zero (sqrt64 s)" and "\<not> is_zero (sqrt64 s')"
  shows "\<not> is_zero (mul64 (sqrt64 s) (sqrt64 s'))"
proof -
  have pos: "0 < K" if "2 ^ 537 \<le> K" for K :: int
    using that by (rule less_le_trans [rotated]) simp
  have big: "\<not> is_zero (mul64 (Fin K) (Fin K'))" if K: "2 ^ 537 \<le> K" "2 ^ 537 \<le> K'" for K K'
  proof -
    have "(2::int) ^ 1074 = 2 ^ 537 * 2 ^ 537"
      by (simp only: power_add [symmetric]) simp
    also have "\<dots> \<le> K * K'"
      using K by (intro mult_mono) simp_all
    also have "\<dots> \<le> \<bar>K * K'\<bar>"
      by simp
    finally have "\<not> is_zero (round64 (K * K') (2 ^ 1074))"
      by (intro round64_not_zero) simp_all
    then show ?thesis
      unfolding mul64.simps .
  qed
  from sqrt64_cases [of s] assms(1) consider
      (nan) "sqrt64 s = NaN" | (inf) "sqrt64 s = PosInf"
    | (fin) K where "sqrt64 s = Fin K" "2 ^ 537 \<le> K"
    by blast
  then show ?thesis
  proof cases
    case nan
    then show ?thesis by simp
  next
    case inf
    from sqrt64_cases [of s'] assms(2) consider
        (nan') "sqrt64 s' = NaN" | (inf') "sqrt64 s' = PosInf"
      | (fin') K' where "sqrt64 s' = Fin K'" "2 ^ 537 \<le> K'"
      by blast
    then show ?thesis
    proof cases
      case nan'
      with inf show ?thesis by simp
    next
      case inf'
      with inf show ?thesis by simp
    next
      case fin'
      from pos [OF fin'(2)] inf fin'(1) show ?thesis by simp
    qed
  next
    case fin
    from sqrt64_cases [of s'] assms(2) consider
        (nan') "sqrt64 s' = NaN" | (inf') "sqrt64 s' = PosInf"
      | (fin') K' where "sqrt64 s' = Fin K'" "2 ^ 537 \<le> K'"
      by blast
    then show ?thesis
    proof cases
      case nan'
      with fin(1) show ?thesis by simp
    next
      case inf'
      from pos [OF fin(2)] inf' fin(1) show ?thesis by simp
    next
      case fin'
      from big [OF fin(2) fin'(2)] show ?thesis
        unfolding fin(1) fin'(1) .
    qed
  qed
qed

lemma true_divide64_returns: "\<not> is_zero y \<Longrightarrow> \<exists>r. true_divide64 x y = Inr r"
  by (cases y; cases x) simp_all

text \<open>
  Two runs of the model on numbers at the edges of the range. The squares of
  \<^verbatim>\<open>1e-200\<close> underflow to zero, so the norm of \<^verbatim>\<open>[1e-200, 0.0]\<close> is exactly zero and the
  guard returns \<^verbatim>\<open>0.0\<close>, although the vector is not the zero vector. The squares of
  \<^verbatim>\<open>1e200\<close> overflow, the norms and the dot product are infinite, and the quotient
  is \<^verbatim>\<open>nan\<close>; the divisor is infinite, not zero.
\<close>

lemma mul64_1e_minus_200: "mul64 float64_1e_minus_200 float64_1e_minus_200 = Fin 0"
  unfolding float64_1e_minus_200_def mul64.simps by (rule round64_underflow) simp_all

lemma cosine64_underflow_example:
  "CosineSimilarity_calculate64 dot_kernel
     [float64_1e_minus_200, Fin 0] [float64_1e_minus_200, Fin 0] = Inr (Fin 0)"
  by (simp add: CosineSimilarity_calculate64_def np_dot64_def np_linalg_norm64_def
      dot_kernel_def mul64_1e_minus_200 round64_zero Let_def)

lemma mul64_1e200: "mul64 float64_1e200 float64_1e200 = PosInf"
  unfolding float64_1e200_def mul64.simps by (rule round64_overflow) simp_all

lemma cosine64_overflow_example:
  "CosineSimilarity_calculate64 dot_kernel
     [float64_1e200, float64_1e200] [float64_1e200, float64_1e200] = Inr NaN"
  by (simp add: CosineSimilarity_calculate64_def np_dot64_def np_linalg_norm64_def
      dot_kernel_def mul64_1e200 round64_zero Let_def)

section \<open>Cosine similarity\<close>

text \<open>
  Claim C8. On two \<^verbatim>\<open>float64\<close> vectors of equal length, whatever routine adds up the
  dot products, the cosine strategy returns a value. When the norm of either vector
  is exactly zero it returns \<^verbatim>\<open>0.0\<close>. Otherwise the divisor, the rounded product of
  the two norms, is not zero, and the result is the quotient of the dot product by
  it: the division is never reached with a zero divisor.
\<close>

theorem CosineSimilarity_calculate64_total:
  assumes "length a = length b"
  shows "(\<exists>r. CosineSimilarity_calculate64 ddot a b = Inr r)
       \<and> CosineSimilarity_calculate64 ddot a b \<noteq> Inl ZeroDivide
       \<and> (is_zero (np_linalg_norm64 ddot a) \<or> is_zero (np_linalg_norm64 ddot b)
            \<longrightarrow> CosineSimilarity_calculate64 ddot a b = Inr (Fin 0))
       \<and> (\<not> is_zero (np_linalg_norm64 ddot a) \<and> \<not> is_zero (np_linalg_norm64 ddot b)
            \<longrightarrow> \<not> is_zero (mul64 (np_linalg_norm64 ddot a) (np_linalg_norm64 ddot b))
              \<and> CosineSimilarity_calculate64 ddot a b =
                  true_divide64 (ddot a b)
                    (mul64 (np_linalg_norm64 ddot a) (np_linalg_norm64 ddot b)))"
proof (cases "is_zero (np_linalg_norm64 ddot a) \<or> is_zero (np_linalg_norm64 ddot b)")
  case True
  with assms show ?thesis
    by (auto simp: CosineSimilarity_calculate64_def np_dot64_def Let_def)
next
  case False
  then have nz: "\<not> is_zero (mul64 (np_linalg_norm64 ddot a) (np_linalg_norm64 ddot b))"
    unfolding np_linalg_norm64_def by (intro mul64_sqrt64_not_zero) simp_all
  from true_divide64_returns [OF nz, of "ddot a b"] obtain r where
    "true_divide64 (ddot a b) (mul64 (np_linalg_norm64 ddot a) (np_linalg_norm64 ddot b)) = Inr r"
    by blast
  with assms False nz show ?thesis
    by (simp add: CosineSimilarity_calculate64_def np_dot64_def Let_def)
qed

theorem CosineSimilarity_calculate64_total_witness:
  "length [float64_1e_minus_200, Fin 0] = length [float64_1, float64_2]
   \<and> is_zero (np_linalg_norm64 dot_kernel [float64_1e_minus_200, Fin 0])
   \<and> CosineSimilarity_calculate64 dot_kernel [float64_1e_minus_200, Fin 0] [float64_1, float64_2]
       = Inr (Fin 0)"
  using CosineSimilarity_calculate64_total
    [where a = "[float64_1e_minus_200, Fin 0]" and b = "[float64_1, float64_2]"
       and ddot = dot_kernel]
  by (simp add: np_linalg_norm64_def dot_kernel_def mul64_1e_minus_200 round64_zero)

section \<open>Query\<close>

lemma list_all_AList_update:
  "list_all P xs \<Longrightarrow> P (k, v) \<Longrightarrow> list_all P (AList.update k v xs)"
  by (induction xs) auto

lemma list_all_AList_delete: "list_all P xs \<Longrightarrow> list_all P (AList.delete k xs)"
  by (induction xs) auto

lemma store_inv_init: "store_inv (init edim strategy)"
  by (simp add: store_inv_def init_def)

lemma store_inv_add: "store_inv db \<Longrightarrow> store_inv (snd (add config db i v md))"
  by (simp add: store_inv_def add_def notify_observers_def VectorItem_init_def Let_def
      list_all_AList_update)

lemma store_inv_update:
  assumes "store_inv db"
  shows "store_inv (snd (update db i v md))"
proof (cases "map_of (items db) i")
  case None
  with assms show ?thesis by (simp add: update_def)
next
  case (Some item)
  then have "(i, item) \<in> set (items db)"
    by (rule map_of_SomeD)
  with assms have len: "int (length (vector item)) = embedding_dim db"
    by (auto simp: store_inv_def list_all_iff)
  with assms Some show ?thesis
    by (auto simp: store_inv_def update_def notify_observers_def Let_def
        intro!: list_all_AList_update split: option.splits)
qed

lemma store_inv_delete: "store_inv db \<Longrightarrow> store_inv (snd (delete db i))"
  by (auto simp: store_inv_def delete_def notify_observers_def list_all_AList_delete
      split: option.splits)

lemma store_inv_clear: "store_inv (clear db)"
  by (simp add: store_inv_def clear_def notify_observers_def)

lemma store_inv_add_observer: "store_inv db \<Longrightarrow> store_inv (add_observer db observer)"
  by (simp add: store_inv_def add_observer_def)

lemma store_inv_add_item: "store_inv db \<Longrightarrow> store_inv (snd (add_item config db x))"
  by (simp add: add_item_def store_inv_add split: option.splits)

lemma store_inv_attempts: "store_inv db \<Longrightarrow> store_inv (snd (attempts config db xs))"
proof (induction xs arbitrary: db)
  case Nil
  then show ?case by simp
next
  case (Cons x xs)
  obtain r db' where r: "add_item config db x = (r, db')"
    by (cases "add_item config db x")
  with Cons.prems store_inv_add_item [of db config x] have "store_inv db'"
    by simp
  obtain rs db'' where rs: "attempts config db' xs = (rs, db'')"
    by (cases "attempts config db' xs")
  from Cons.IH [OF \<open>store_inv db'\<close>] r rs show ?case
    by simp
qed

lemma store_inv_batch_add: "store_inv db \<Longrightarrow> store_inv (snd (batch_add config db xs))"
  by (simp add: batch_add_def batch_add_loop_attempts store_inv_attempts)

lemma calculate_builtin_returns:
  assumes "builtin strategy" and "length a = length b"
  shows "\<exists>s. calculate strategy a b = Inr s"
proof (cases strategy)
  case CosineSimilarity
  then show ?thesis
    using CosineSimilarity_calculate_eq [OF assms(2)] by simp
next
  case EuclideanSimilarity
  then show ?thesis
    using EuclideanSimilarity_calculate_returns [OF assms(2)] by simp
next
  case (Subclass f)
  with assms(1) show ?thesis by simp
qed

lemma query_loop_returns:
  assumes "list_all (\<lambda>(i, item). \<exists>s. calculate strategy q (vector item) = Inr s) xs"
  shows "\<exists>rs. query_loop strategy threshold flt q xs acc = Inr rs"
  using assms
proof (induction xs arbitrary: acc)
  case Nil
  show ?case by simp
next
  case (Cons x xs)
  obtain i item where x: "x = (i, item)"
    by (cases x)
  from Cons.prems x obtain s where s: "calculate strategy q (vector item) = Inr s"
    by auto
  from Cons.prems have rest: "list_all (\<lambda>(i, item). \<exists>s. calculate strategy q (vector item) = Inr s) xs"
    by simp
  show ?case
    using Cons.IH [OF rest] x s by simp
qed

lemma query_loop_above_threshold:
  assumes "query_loop strategy threshold flt q xs acc = Inr rs"
    and "\<forall>r\<in>set acc. threshold \<le> similarity r"
  shows "\<forall>r\<in>set rs. threshold \<le> similarity r"
  using assms
proof (induction xs arbitrary: acc)
  case Nil
  then show ?case by simp
next
  case (Cons x xs)
  obtain i item where x: "x = (i, item)"
    by (cases x)
  show ?case
  proof (cases "case flt of None \<Rightarrow> False | Some f \<Rightarrow> \<not> f (metadata item)")
    case True
    with Cons.prems x have "query_loop strategy threshold flt q xs acc = Inr rs"
      by simp
    then show ?thesis
      using Cons.IH Cons.prems(2) by blast
  next
    case False
    show ?thesis
    proof (cases "calculate strategy q (vector item)")
      case (Inl e)
      with Cons.prems(1) x False show ?thesis by simp
    next
      case (Inr s)
      show ?thesis
      proof (cases "threshold \<le> s")
        case True
        let ?acc = "acc @ [\<lparr>result_id = i, similarity = s, result_metadata = metadata item\<rparr>]"
        from Cons.prems(1) x False Inr True
        have "query_loop strategy threshold flt q xs ?acc = Inr rs"
          by simp
        moreover from Cons.prems(2) True have "\<forall>r\<in>set ?acc. threshold \<le> similarity r"
          by simp
        ultimately show ?thesis
          using Cons.IH by blast
      next
        case below: False
        with Cons.prems(1) x False Inr
        have "query_loop strategy threshold flt q xs acc = Inr rs"
          by simp
        then show ?thesis
          using Cons.IH Cons.prems(2) by blast
      qed
    qed
  qed
qed

lemma set_sort_reverse: "set (sort_reverse key xs) = set xs"
  by (simp add: sort_reverse_def)

lemma sort_reverse_descending:
  "sorted_wrt (\<lambda>x y. key y \<le> key x) (sort_reverse key xs)"
proof -
  have "sorted (map key (sort_key key (rev xs)))"
    by (rule sorted_sort_key)
  then have "sorted_wrt (\<lambda>x y. key x \<le> key y) (sort_key key (rev xs))"
    by (simp add: sorted_wrt_map)
  then show ?thesis
    by (simp add: sort_reverse_def sorted_wrt_rev)
qed

lemma slice_to_positive: "0 < k \<Longrightarrow> slice_to xs k = take (nat k) xs"
  by (simp add: slice_to_def)

text \<open>
  Claim C3. For a positive \<open>top_k\<close>, whatever \<open>query\<close> returns has at most \<open>top_k\<close>
  entries, every entry scores at least the similarity threshold that the
  configuration holds while the query runs, and the scores are in descending order.
  On a store that satisfies its invariant, with one of the two provided strategies
  and a query vector of the embedding dimension, \<open>query\<close> does return a sequence.
\<close>

theorem query_top_k:
  assumes "0 < top_k"
  shows "(\<forall>rs. query config db q top_k flt = Inr rs \<longrightarrow>
            int (length rs) \<le> top_k
            \<and> (\<forall>r\<in>set rs. similarity_threshold config \<le> similarity r)
            \<and> sorted_wrt (\<ge>) (map similarity rs))
       \<and> (store_inv db \<and> int (length q) = embedding_dim db \<and> builtin (similarity_strategy db)
            \<longrightarrow> (\<exists>rs. query config db q top_k flt = Inr rs))"
proof (intro conjI allI impI)
  fix rs
  assume ret: "query config db q top_k flt = Inr rs"
  then obtain results where
    loop: "query_loop (similarity_strategy db) (similarity_threshold config) flt q (items db) []
             = Inr results"
    and rs: "rs = take (nat top_k) (sort_reverse similarity results)"
    using assms by (auto simp: query_def slice_to_positive split: if_splits sum.splits)
  show "int (length rs) \<le> top_k"
    using assms rs by simp
  have "\<forall>r\<in>set results. similarity_threshold config \<le> similarity r"
    using query_loop_above_threshold [OF loop] by simp
  then show "\<forall>r\<in>set rs. similarity_threshold config \<le> similarity r"
    using rs set_sort_reverse [of similarity results] by (auto dest: in_set_takeD)
  have "sorted_wrt (\<lambda>x y. similarity y \<le> similarity x) rs"
    unfolding rs by (rule sorted_wrt_take) (rule sort_reverse_descending)
  then show "sorted_wrt (\<ge>) (map similarity rs)"
    by (simp add: sorted_wrt_map)
next
  assume "store_inv db \<and> int (length q) = embedding_dim db \<and> builtin (similarity_strategy db)"
  then have inv: "store_inv db" and len: "int (length q) = embedding_dim db"
    and bi: "builtin (similarity_strategy db)"
    by simp_all
  have "list_all (\<lambda>(i, item). \<exists>s. calculate (similarity_strategy db) q (vector item) = Inr s)
          (items db)"
    using inv len calculate_builtin_returns [OF bi]
    by (auto simp: store_inv_def list_all_iff)
  from query_loop_returns [OF this]
  obtain results where
    "query_loop (similarity_strategy db) (similarity_threshold config) flt q (items db) []
       = Inr results"
    by blast
  with len show "\<exists>rs. query config db q top_k flt = Inr rs"
    by (simp add: query_def)
qed

theorem query_top_k_witness:
  "query initialize
     \<lparr>embedding_dim = 2, similarity_strategy = CosineSimilarity,
      items = [(''b'', VectorItem_init ''b'' [4, 3] None),
               (''c'', VectorItem_init ''c'' [- 3, - 4] None),
               (''a'', VectorItem_init ''a'' [3, 4] (Some [(''k'', True)])),
               (''d'', VectorItem_init ''d'' [6, 8] None)],
      observers = [0::nat], delivered = []\<rparr>
     [3, 4] 2 None
   = Inr [\<lparr>result_id = ''a'', similarity = 1, result_metadata = [(''k'', True)]\<rparr>,
          \<lparr>result_id = ''d'', similarity = 1, result_metadata = []\<rparr>]"
  using query_top_k
    [of 2 initialize
        "\<lparr>embedding_dim = 2, similarity_strategy = CosineSimilarity,
          items = [(''b'', VectorItem_init ''b'' [4, 3] None),
                   (''c'', VectorItem_init ''c'' [- 3, - 4] None),
                   (''a'', VectorItem_init ''a'' [3, 4] (Some [(''k'', True)])),
                   (''d'', VectorItem_init ''d'' [6, 8] None)],
          observers = [0::nat], delivered = []\<rparr>"
        "[3, 4]" None]
  by (simp add: query_def initialize_def VectorItem_init_def CosineSimilarity_calculate_def
      np_dot_def np_linalg_norm_def true_divide_def sort_reverse_def slice_to_def)

lemma query_zero_top_k: "query config db q 0 flt = Inr rs \<Longrightarrow> rs = []"
  by (auto simp: query_def slice_to_def split: if_splits sum.splits)

text \<open>
  Claim C2, at a negative \<open>top_k\<close>. The store holds two records that both score \<open>1\<close>
  against the query vector, above the threshold \<open>0.8\<close>. With \<open>top_k = -1\<close> the slice
  \<^verbatim>\<open>results[:top_k]\<close> drops the last survivor only, and \<open>query\<close> returns the other one
  instead of the empty sequence.
\<close>

theorem query_negative_top_k_not_empty:
  "query initialize
     \<lparr>embedding_dim = 1, similarity_strategy = CosineSimilarity,
      items = [(''a'', VectorItem_init ''a'' [1] None), (''b'', VectorItem_init ''b'' [2] None)],
      observers = [0::nat], delivered = []\<rparr>
     [1] (- 1) None
   = Inr [\<lparr>result_id = ''a'', similarity = 1, result_metadata = ([] :: bool metadata)\<rparr>]"
  by (simp add: query_def initialize_def VectorItem_init_def CosineSimilarity_calculate_def
      np_dot_def np_linalg_norm_def true_divide_def sort_reverse_def slice_to_def)

section \<open>The configuration object\<close>

text \<open>
  Claim C1, as stated, fails. A store is constructed and one record is inserted while
  the configuration holds its initial values. Then \<^verbatim>\<open>max_items\<close> is set to \<open>1\<close>: the next
  insert into that store raises the capacity error, where it succeeds under the
  unchanged configuration. Likewise, once \<^verbatim>\<open>similarity_threshold\<close> is set to \<open>2\<close>, a
  query of that store no longer returns the record it returned before.
\<close>

theorem config_change_after_construction_counterexample:
  "fst (add (initialize\<lparr>max_items := 1\<rparr>)
          (snd (add initialize (init 1 None :: (bool, nat) ChromaVectorDB) ''a'' [1] None))
          ''b'' [2] None)
     = Inl (RuntimeError ''Database capacity reached'')
   \<and> fst (add initialize
          (snd (add initialize (init 1 None :: (bool, nat) ChromaVectorDB) ''a'' [1] None))
          ''b'' [2] None)
     = Inr True
   \<and> query (initialize\<lparr>similarity_threshold := 2\<rparr>)
        (snd (add initialize (init 1 None :: (bool, nat) ChromaVectorDB) ''a'' [1] None))
        [1] 5 None
     = Inr []
   \<and> query initialize
        (snd (add initialize (init 1 None :: (bool, nat) ChromaVectorDB) ''a'' [1] None))
        [1] 5 None
     = Inr [\<lparr>result_id = ''a'', similarity = 1, result_metadata = []\<rparr>]"
  by (simp add: add_def init_def initialize_def notify_observers_def query_def
      VectorItem_init_def CosineSimilarity_calculate_def np_dot_def np_linalg_norm_def
      true_divide_def sort_reverse_def slice_to_def)

text \<open>
  Claim C1, amended. The store holds a reference to the configuration object, and
  \<open>add\<close> and \<open>query\<close> read it when they are called: the outcome of \<open>add\<close> depends on the
  configuration only through the value \<^verbatim>\<open>max_items\<close> has at the call, and the outcome
  of \<open>query\<close> only through the value \<^verbatim>\<open>similarity_threshold\<close> has at the call, so a
  change to any other configuration value has no effect on either. An insert of a
  vector of the right dimension succeeds exactly when the number of records is below
  the current \<^verbatim>\<open>max_items\<close>.
\<close>

theorem config_read_at_call:
  "(max_items config' = max_items config
      \<longrightarrow> add config' db i v md = add config db i v md)
   \<and> (similarity_threshold config' = similarity_threshold config
      \<longrightarrow> query config' db q top_k flt = query config db q top_k flt)
   \<and> (int (length v) = embedding_dim db
      \<longrightarrow> (fst (add config db i v md) = Inr True) = (int (count db) < max_items config))"
  by (simp add: add_def query_def count_def Let_def)

theorem config_read_at_call_witness:
  "add (initialize\<lparr>default_embedding_dim := 64\<rparr>)
       (init 1 None :: (bool, nat) ChromaVectorDB) ''a'' [1] None
     = add initialize (init 1 None) ''a'' [1] None
   \<and> query (initialize\<lparr>default_embedding_dim := 64\<rparr>)
       (init 1 None :: (bool, nat) ChromaVectorDB) [1] 5 None
     = query initialize (init 1 None) [1] 5 None
   \<and> fst (add initialize (init 1 None :: (bool, nat) ChromaVectorDB) ''a'' [1] None) = Inr True
   \<and> int (count (init 1 None :: (bool, nat) ChromaVectorDB)) < max_items initialize"
  using config_read_at_call
    [of "initialize\<lparr>default_embedding_dim := 64\<rparr>" initialize
        "init 1 None :: (bool, nat) ChromaVectorDB" "''a''" "[1]" None "[1]" 5 None]
  by (simp add: initialize_def init_def count_def add_def query_def)

end
